theory Spec2Isabelle
  imports Main "HOL-Library.Sublist"
begin

section \<open>Messages and the engine's environment (mcp_chatbot_backend.py)\<close>

text \<open>
  The message classes of the source: \<open>HumanMessage\<close>, \<open>AIMessage\<close>, \<open>ToolMessage\<close> and
  \<open>SystemMessage\<close>. Only an \<open>AIMessage\<close> has the attribute \<open>tool_calls\<close>. Python text is
  modelled as \<open>string\<close>, one \<open>char\<close> per code point below 256.
\<close>

datatype tool_call = ToolCall (tc_name: string) (tc_args: string) (tc_id: string)

datatype message =
    HumanMessage (content: string)
  | AIMessage (content: string) (tool_calls: "tool_call list")
  | ToolMessage (content: string) (tool_call_id: string)
  | SystemMessage (content: string)

text \<open>\<open>msg.__class__.__name__\<close>.\<close>

fun class_name :: "message \<Rightarrow> string" where
  "class_name (HumanMessage c) = ''HumanMessage''"
| "class_name (AIMessage c tcs) = ''AIMessage''"
| "class_name (ToolMessage c i) = ''ToolMessage''"
| "class_name (SystemMessage c) = ''SystemMessage''"

datatype error =
    ModelInvocationError string
  | AttributeError string
  | ValueError string
  | KeyError string
  | IndexError
  | TimeoutError

text \<open>A name between single quotes, as Python's messages print it.\<close>

definition quoted :: "string \<Rightarrow> string" where
  "quoted s = [CHR 0x27] @ s @ [CHR 0x27]"

text \<open>\<open>str(e)\<close> as the handlers of app_flask.py put it into the error field.\<close>

fun str_error :: "error \<Rightarrow> string" where
  "str_error (ModelInvocationError s) = s"
| "str_error (AttributeError s) = s"
| "str_error (ValueError s) = s"
| "str_error (KeyError k) = quoted k"
| "str_error IndexError = ''list index out of range''"
| "str_error TimeoutError = ''''"

text \<open>
  What the module obtains from outside at start-up: the working directory, the language model
  with the tools bound (\<open>llm_with_tools.ainvoke\<close>: it raises, or answers with the content and
  the tool calls of one \<open>AIMessage\<close>), and the tools loaded from the MCP servers, each a name
  with a handler that raises or returns text.
\<close>

record env =
  WORKING_DIRECTORY :: string
  llm_with_tools :: "message list \<Rightarrow> error + (string \<times> tool_call list)"
  mcp_tools :: "(string \<times> (string \<Rightarrow> error + string)) list"

definition SYSTEM_PROMPT :: "string \<Rightarrow> message" where
  \<open>SYSTEM_PROMPT wd = SystemMessage (
     ''You are a helpful AI assistant with access to various tools through MCP servers.\<newline>'' @
     ''\<newline>'' @
     ''Your working directory is: '' @ wd @ ''\<newline>'' @
     ''\<newline>'' @
     ''TOOL USAGE GUIDELINES:\<newline>'' @
     ''1. When tools are available, use them to provide accurate, real-time information\<newline>'' @
     ''2. If a tool requires a "directory" parameter, use: "'' @ wd @ ''"\<newline>'' @
     ''3. Call tools when they can help answer the user's question\<newline>'' @
     ''4. After receiving tool results, interpret and present them in a clear, natural way\<newline>'' @
     ''5. Don't show raw JSON unless the user specifically asks for it\<newline>'' @
     ''6. Extract and highlight the most relevant information from tool responses\<newline>'' @
     ''7. If a tool fails, explain the error and suggest alternatives\<newline>'' @
     ''\<newline>'' @
     ''IMPORTANT FILESYSTEM RULES:\<newline>'' @
     ''- Never request full directory trees\<newline>'' @
     ''- Always limit directory depth to 2 levels maximum\<newline>'' @
     ''- Prefer listing folder names only\<newline>'' @
     ''- Never return full file contents unless explicitly asked\<newline>'' @
     ''\<newline>'' @
     ''\<newline>'' @
     ''RESPONSE STYLE:\<newline>'' @
     ''- Be conversational and natural\<newline>'' @
     ''- Summarize data clearly (e.g., "I found 5 accounts" instead of showing raw JSON)\<newline>'' @
     ''- Only show technical details if requested\<newline>'' @
     ''- Format lists and data in a readable way'')\<close>

subsection \<open>State and its reducer\<close>

text \<open>
  \<open>ChatState\<close> has the single key \<open>messages\<close>, reduced by \<open>add_messages\<close>. The reducer is
  library code; on the messages of this program (each new message gets an identifier of its
  own) it puts the update after the messages already there.
\<close>

type_synonym ChatState = "message list"

definition add_messages :: "message list \<Rightarrow> message list \<Rightarrow> message list" where
  "add_messages left right = left @ right"

subsection \<open>Nodes\<close>

text \<open>\<open>chat_node\<close>: the system prompt in front of the state's messages goes to the model; the
  update is the one response. An exception of the model leaves the node.\<close>

definition chat_node :: "env \<Rightarrow> ChatState \<Rightarrow> error + message list" where
  "chat_node e state =
     (let messages = [SYSTEM_PROMPT (WORKING_DIRECTORY e)] @ state in
      case llm_with_tools e messages of
        Inl err \<Rightarrow> Inl err
      | Inr (c, tcs) \<Rightarrow> Inr [AIMessage c tcs])"

text \<open>
  \<open>tool_node = ToolNode(mcp_tools)\<close> is the library's node. It reads the tool calls of the last
  message, which has to be an \<open>AIMessage\<close>, looks each call up by name among the tools, and
  answers each call with one \<open>ToolMessage\<close>: the tool's text, or an error text when the name is
  unknown or the tool raises.
\<close>

definition run_tool :: "(string \<times> (string \<Rightarrow> error + string)) list \<Rightarrow> tool_call \<Rightarrow> message" where
  "run_tool tools tc =
     (case map_of tools (tc_name tc) of
        None \<Rightarrow> ToolMessage (''Error: '' @ tc_name tc @ '' is not a valid tool'') (tc_id tc)
      | Some handler \<Rightarrow>
          (case handler (tc_args tc) of
             Inl err \<Rightarrow> ToolMessage (''Error: '' @ str_error err) (tc_id tc)
           | Inr out \<Rightarrow> ToolMessage out (tc_id tc)))"

definition tool_node :: "env \<Rightarrow> ChatState \<Rightarrow> error + message list" where
  "tool_node e state =
     (case rev state of
        AIMessage c tcs # _ \<Rightarrow> Inr (map (run_tool (mcp_tools e)) tcs)
      | _ \<Rightarrow> Inl (ValueError ''No AIMessage found in input''))"

subsection \<open>The graph\<close>

datatype node = START | N_chat_node | N_tools | END

text \<open>\<open>route_after_chat\<close>: \<open>state["messages"][-1]\<close> raises on an empty list;
  \<open>hasattr(last, "tool_calls") and last.tool_calls\<close> holds for an \<open>AIMessage\<close> with a
  non-empty list of calls only.\<close>

definition route_after_chat :: "ChatState \<Rightarrow> error + node" where
  "route_after_chat state =
     (case rev state of
        [] \<Rightarrow> Inl IndexError
      | AIMessage c tcs # _ \<Rightarrow> (if tcs \<noteq> [] then Inr N_tools else Inr END)
      | _ # _ \<Rightarrow> Inr END)"

text \<open>
  One step of the compiled graph at a node: the node's update is merged into the state by the
  reducer, then the edge out of the node is followed. The edges are those the source adds:
  \<open>START\<close> to \<open>chat_node\<close>, the conditional edges of \<open>chat_node\<close> chosen by
  \<open>route_after_chat\<close>, and \<open>tools\<close> to \<open>chat_node\<close>.
\<close>

definition step :: "env \<Rightarrow> node \<Rightarrow> ChatState \<Rightarrow> error + (node \<times> ChatState)" where
  "step e n state =
     (case n of
        START \<Rightarrow> Inr (N_chat_node, state)
      | N_chat_node \<Rightarrow>
          (case chat_node e state of
             Inl err \<Rightarrow> Inl err
           | Inr upd \<Rightarrow>
               (let state' = add_messages state upd in
                case route_after_chat state' of
                  Inl err \<Rightarrow> Inl err
                | Inr n' \<Rightarrow> Inr (n', state')))
      | N_tools \<Rightarrow>
          (case tool_node e state of
             Inl err \<Rightarrow> Inl err
           | Inr upd \<Rightarrow> Inr (N_chat_node, add_messages state upd))
      | END \<Rightarrow> Inr (END, state))"

text \<open>
  Running the graph from a node. The source gives the run no limit of its own (the only
  configuration it passes is the thread identifier), so the run is a partial function: \<open>None\<close>
  is a run that never reaches \<open>END\<close>. A finished run gives the state of the last completed
  step, which is the one the checkpointer holds, and the exception that ended it, if any.
\<close>

partial_function (option) run_graph ::
  "env \<Rightarrow> node \<Rightarrow> ChatState \<Rightarrow> (ChatState \<times> error option) option" where
  "run_graph e n state =
     (if n = END then Some (state, None)
      else case step e n state of
             Inl err \<Rightarrow> Some (state, Some err)
           | Inr (n', state') \<Rightarrow> run_graph e n' state')"

text \<open>
  \<open>chatbot.ainvoke(input, config)\<close> on the graph compiled with the checkpointer: the thread's
  persisted messages are loaded (none for an unseen thread), the input is merged in by the
  reducer, the graph runs from \<open>START\<close>, and the checkpointer then holds the state of the last
  completed step. The value returned is the final state, a dictionary whose only key is
  \<open>messages\<close>; an exception of a node is raised to the caller.
\<close>

type_synonym checkpoints = "string \<rightharpoonup> message list"

definition ainvoke ::
  "env \<Rightarrow> checkpoints \<Rightarrow> string \<Rightarrow> message list
     \<Rightarrow> (checkpoints \<times> (error + (string \<times> message list) list)) option" where
  "ainvoke e cp thread_id input =
     (let state0 = add_messages (case cp thread_id of None \<Rightarrow> [] | Some ms \<Rightarrow> ms) input in
      case run_graph e START state0 of
        None \<Rightarrow> None
      | Some (state, None) \<Rightarrow> Some (cp(thread_id \<mapsto> state), Inr [(''messages'', state)])
      | Some (state, Some err) \<Rightarrow> Some (cp(thread_id \<mapsto> state), Inl err))"

section \<open>The request handlers (app_flask.py)\<close>

text \<open>
  \<open>run_async\<close> hands the coroutine to the background loop and waits for
  \<open>future.result(timeout=60)\<close>. The coroutine is given by its outcome, \<open>None\<close> when it never
  completes, and by the seconds it takes to complete; the wait raises \<open>TimeoutError\<close> when no
  outcome arrives within the timeout. The coroutine itself is not cancelled.
\<close>

definition run_async_timeout :: nat where
  "run_async_timeout = 60"

definition run_async :: "nat \<Rightarrow> (error + 'a) option \<Rightarrow> error + 'a" where
  "run_async seconds coro =
     (case coro of
        None \<Rightarrow> Inl TimeoutError
      | Some outcome \<Rightarrow> (if seconds \<le> run_async_timeout then outcome else Inl TimeoutError))"

text \<open>
  The state the handlers work on: the checkpointer's threads and the \<open>thread_id\<close> entry of the
  caller's session. \<open>get_thread_id\<close> takes the fresh \<open>str(uuid.uuid4())\<close> as an argument.
\<close>

record app_state =
  checkpointer :: checkpoints
  session :: "string option"

definition get_thread_id :: "string \<Rightarrow> app_state \<Rightarrow> string \<times> app_state" where
  "get_thread_id uuid4 st =
     (case session st of
        None \<Rightarrow> (uuid4, st\<lparr>session := Some uuid4\<rparr>)
      | Some t \<Rightarrow> (t, st))"

text \<open>
  The JSON body of a chat request, an object: the value under \<open>message\<close>, if the key is
  there, and the string under \<open>thread_id\<close>, if the key is there and not null.
\<close>

datatype json = JNull | JBool bool | JNum int | JStr string | JList | JDict

datatype request = Request (req_message: "json option") (req_thread_id: "string option")

text \<open>\<open>str.strip()\<close>: white space is what \<open>str.isspace\<close> accepts, here below code point 256.\<close>

definition isspace :: "char \<Rightarrow> bool" where
  "isspace c = ((of_char c :: nat) \<in> set [9, 10, 11, 12, 13, 28, 29, 30, 31, 32, 133, 160])"

definition strip :: "string \<Rightarrow> string" where
  "strip s = rev (dropWhile isspace (rev (dropWhile isspace s)))"

text \<open>\<open>data.get("message", "").strip()\<close>: only a string has the method.\<close>

definition no_strip :: "string \<Rightarrow> error" where
  "no_strip ty = AttributeError (quoted ty @ '' object has no attribute '' @ quoted ''strip'')"

definition message_strip :: "request \<Rightarrow> error + string" where
  "message_strip req =
     (case (case req_message req of None \<Rightarrow> JStr [] | Some v \<Rightarrow> v) of
        JStr s \<Rightarrow> Inr (strip s)
      | JNull \<Rightarrow> Inl (no_strip ''NoneType'')
      | JBool b \<Rightarrow> Inl (no_strip ''bool'')
      | JNum i \<Rightarrow> Inl (no_strip ''int'')
      | JList \<Rightarrow> Inl (no_strip ''list'')
      | JDict \<Rightarrow> Inl (no_strip ''dict''))"

text \<open>The replies: the JSON object given to \<open>jsonify\<close>, paired with the HTTP status.\<close>

datatype body =
    ChatBody (success: bool) (response: string) (reply_thread_id: string)
      (discovered_username: "message list option")
  | ErrorBody (success: bool) (error: string)
  | HistoryBody (success: bool) (history: "(string \<times> string) list") (reply_thread_id: string)
  | MessageBody (success: bool) (message: string)

type_synonym reply = "body \<times> nat"

text \<open>
  \<open>chat\<close>. The state after the call is \<open>None\<close> when the engine run never completes: the caller
  then has its reply from the timeout while the checkpointer keeps changing. In every other
  case the writes of the submitted work are in the state after the call, also when the wait
  timed out, since the work is not cancelled.
\<close>

definition chat :: "env \<Rightarrow> nat \<Rightarrow> string \<Rightarrow> request \<Rightarrow> app_state \<Rightarrow> app_state option \<times> reply" where
  "chat e seconds uuid4 req st =
     (case message_strip req of
        Inl err \<Rightarrow> (Some st, (ErrorBody False (str_error err), 500))
      | Inr user_message \<Rightarrow>
          (let (thread_id, st1) =
                 (case req_thread_id req of
                    None \<Rightarrow> get_thread_id uuid4 st
                  | Some t \<Rightarrow> (if t \<noteq> [] then (t, st) else get_thread_id uuid4 st))
           in
           if user_message = [] then (Some st1, (ErrorBody False ''No message provided'', 400))
           else
             (let work = ainvoke e (checkpointer st1) thread_id [HumanMessage user_message];
                  st2 = map_option (\<lambda>(cp, r). st1\<lparr>checkpointer := cp\<rparr>) work
              in
              case run_async seconds (map_option snd work) of
                Inl err \<Rightarrow> (st2, (ErrorBody False (str_error err), 500))
              | Inr result \<Rightarrow>
                  (case map_of result ''messages'' of
                     None \<Rightarrow> (st2, (ErrorBody False (str_error (KeyError ''messages'')), 500))
                   | Some ms \<Rightarrow>
                       (case rev ms of
                          [] \<Rightarrow> (st2, (ErrorBody False (str_error IndexError), 500))
                        | last_msg # _ \<Rightarrow>
                            (st2, (ChatBody True (content last_msg) thread_id
                                     (map_of result ''discovered_username''), 200)))))))"

text \<open>\<open>get_history\<close> with its coroutine \<open>fetch_history\<close>: an unseen thread has no state values.\<close>

definition fetch_history :: "checkpoints \<Rightarrow> string \<Rightarrow> (string \<times> string) list" where
  "fetch_history cp thread_id =
     (case cp thread_id of
        None \<Rightarrow> []
      | Some messages \<Rightarrow>
          map (\<lambda>msg. (if class_name msg = ''HumanMessage'' then ''user'' else ''assistant'',
                      content msg))
            messages)"

definition get_history :: "nat \<Rightarrow> string \<Rightarrow> app_state \<Rightarrow> app_state \<times> reply" where
  "get_history seconds thread_id st =
     (case run_async seconds (Some (Inr (fetch_history (checkpointer st) thread_id))) of
        Inl err \<Rightarrow> (st, (ErrorBody False (str_error err), 500))
      | Inr h \<Rightarrow> (st, (HistoryBody True h thread_id, 200)))"

definition clear_thread :: "string \<Rightarrow> app_state \<Rightarrow> app_state \<times> reply" where
  "clear_thread thread_id st =
     (st, (MessageBody False ''Thread clearing not supported. Create a new thread instead.'', 501))"

section \<open>Notions used to state the properties\<close>

text \<open>The messages the checkpointer holds for a thread, none for an unseen thread.\<close>

definition thread_messages :: "checkpoints \<Rightarrow> string \<Rightarrow> message list" where
  "thread_messages cp t = (case cp t of None \<Rightarrow> [] | Some ms \<Rightarrow> ms)"

text \<open>
  The specification's reading of \<open>history\<close>, in its own words: each message has one of the
  roles user, assistant, tool and system, and the history is the thread's message sequence
  filtered to the roles user and assistant. It is compared with \<open>fetch_history\<close> below.
\<close>

fun role_of :: "message \<Rightarrow> string" where
  "role_of (HumanMessage c) = ''user''"
| "role_of (AIMessage c tcs) = ''assistant''"
| "role_of (ToolMessage c i) = ''tool''"
| "role_of (SystemMessage c) = ''system''"

definition history_spec :: "checkpoints \<Rightarrow> string \<Rightarrow> (string \<times> string) list" where
  "history_spec cp t =
     map (\<lambda>m. (role_of m, content m))
       (filter (\<lambda>m. role_of m = ''user'' \<or> role_of m = ''assistant'') (thread_messages cp t))"




subsection \<open>Concrete environments\<close>

text \<open>A model that answers at once, one that asks for a tool on every turn, one that asks for a
  tool once and answers after the tool's result, and one that always fails.\<close>

definition reply_env :: env where
  "reply_env =
     \<lparr>WORKING_DIRECTORY = ''/srv'',
      llm_with_tools = (\<lambda>ms. Inr (''ok'', [])),
      mcp_tools = []\<rparr>"

definition loop_env :: env where
  "loop_env =
     \<lparr>WORKING_DIRECTORY = ''/srv'',
      llm_with_tools = (\<lambda>ms. Inr ([], [ToolCall ''ls'' ''{}'' ''c1''])),
      mcp_tools = [(''ls'', \<lambda>a. Inr ''a.txt'')]\<rparr>"

definition tool_once_env :: env where
  "tool_once_env =
     \<lparr>WORKING_DIRECTORY = ''/srv'',
      llm_with_tools =
        (\<lambda>ms. case rev ms of
                 ToolMessage c i # _ \<Rightarrow> Inr (''done'', [])
               | _ \<Rightarrow> Inr ([], [ToolCall ''ls'' ''{}'' ''c1''])),
      mcp_tools = [(''ls'', \<lambda>a. Inr ''a.txt'')]\<rparr>"


definition empty_state :: app_state where
  "empty_state = \<lparr>checkpointer = Map.empty, session = None\<rparr>"

text \<open>The thread that one request through \<open>tool_once_env\<close> leaves behind.\<close>

definition tool_thread :: checkpoints where
  "tool_thread =
     [''t1'' \<mapsto> [HumanMessage ''hi'',
                AIMessage [] [ToolCall ''ls'' ''{}'' ''c1''],
                ToolMessage ''a.txt'' ''c1'',
                AIMessage ''done'' []]]"

section \<open>Evaluation and basic facts\<close>

lemmas eval_defs = run_graph.simps step_def chat_node_def add_messages_def route_after_chat_def
  tool_node_def run_tool_def ainvoke_def chat_def message_strip_def strip_def isspace_def
  get_thread_id_def run_async_def run_async_timeout_def fetch_history_def thread_messages_def





lemma ainvoke_result:
  "ainvoke e cp tid inp = Some (cp', Inr result) \<Longrightarrow> \<exists>s. result = [(''messages'', s)]"
  by (auto simp: ainvoke_def Let_def split: option.splits prod.splits)

text \<open>The thread identifier a chat request works on, with the state after it is determined.\<close>

lemma chat_thread_cases:
  obtains tid st1 where
    "(case req_thread_id req of
        None \<Rightarrow> get_thread_id uuid4 st
      | Some t \<Rightarrow> (if t \<noteq> [] then (t, st) else get_thread_id uuid4 st)) = (tid, st1)"
    "checkpointer st1 = checkpointer st"
proof -
  obtain tid st1 where g: "(case req_thread_id req of
        None \<Rightarrow> get_thread_id uuid4 st
      | Some t \<Rightarrow> (if t \<noteq> [] then (t, st) else get_thread_id uuid4 st)) = (tid, st1)"
    by (cases "(case req_thread_id req of
        None \<Rightarrow> get_thread_id uuid4 st
      | Some t \<Rightarrow> (if t \<noteq> [] then (t, st) else get_thread_id uuid4 st))")
  then have "checkpointer st1 = checkpointer st"
    by (auto simp: get_thread_id_def split: option.splits if_splits)
  with g show thesis by (rule that)
qed


lemma fetch_history_map:
  "fetch_history cp t =
     map (\<lambda>msg. (if class_name msg = ''HumanMessage'' then ''user'' else ''assistant'', content msg))
       (thread_messages cp t)"
  by (simp add: fetch_history_def thread_messages_def split: option.splits)

lemma tool_thread_reached:
  "fst (chat tool_once_env 1 ''u1'' (Request (Some (JStr ''hi'')) (Some ''t1'')) empty_state)
     = Some \<lparr>checkpointer = tool_thread, session = None\<rparr>"
  by (simp add: eval_defs tool_once_env_def empty_state_def tool_thread_def SYSTEM_PROMPT_def)

subsection \<open>Runs of the graph\<close>








lemma run_async_late: "60 < seconds \<Longrightarrow> run_async seconds c = Inl TimeoutError"
  by (simp add: run_async_def run_async_timeout_def split: option.splits)

section \<open>The claims\<close>

text \<open>
  C1 (as stated, refuted). The claim reads \<open>history\<close> as the thread's messages filtered to
  the roles user and assistant. On the thread left by a request that used a tool, the history
  handler returns four entries, the tool's result among them under the role assistant, while
  the filter of the specification gives three.
\<close>

theorem history_keeps_tool_messages:
  "fetch_history tool_thread ''t1'' =
     [(''user'', ''hi''), (''assistant'', []), (''assistant'', ''a.txt''), (''assistant'', ''done'')]
   \<and> history_spec tool_thread ''t1'' =
     [(''user'', ''hi''), (''assistant'', []), (''assistant'', ''done'')]"
  by (simp add: fetch_history_def history_spec_def tool_thread_def thread_messages_def)

text \<open>
  C1 (amended). For every thread, the history has one entry for each persisted message, in
  conversation order and with the message's content; none is dropped. The entry of a
  \<open>HumanMessage\<close> has the role user, the entry of any other message the role assistant.
\<close>

theorem history_maps_every_message:
  "length (fetch_history cp t) = length (thread_messages cp t)
   \<and> map snd (fetch_history cp t) = map content (thread_messages cp t)
   \<and> map fst (fetch_history cp t) =
       map (\<lambda>m. if class_name m = ''HumanMessage'' then ''user'' else ''assistant'')
         (thread_messages cp t)"
  by (simp add: fetch_history_map)




text \<open>
  C3. For every thread, \<open>clear_thread\<close> answers with the structured failure "not supported"
  (success false, status 501) and leaves the state as it is, so the history of every thread is
  the same before and after the call.
\<close>

theorem clear_thread_unsupported:
  "snd (clear_thread tid st) =
     (MessageBody False ''Thread clearing not supported. Create a new thread instead.'', 501)
   \<and> success (fst (snd (clear_thread tid st))) = False
   \<and> fst (clear_thread tid st) = st
   \<and> fetch_history (checkpointer (fst (clear_thread tid st))) t = fetch_history (checkpointer st) t
   \<and> get_history seconds t (fst (clear_thread tid st)) = get_history seconds t st"
  by (simp add: clear_thread_def)



text \<open>
  C5. A chat request whose message is missing, empty or white space only is answered with the
  structured failure "No message provided" (status 400) before the engine is entered: the
  reply and the state after the call are the same whatever the model, the tools and the
  timing are (also with a model on which the engine would never complete), and the
  checkpointer holds what it held before.
\<close>

theorem chat_rejects_empty_message:
  assumes "req_message req = None \<or> (\<exists>s. req_message req = Some (JStr s) \<and> strip s = [])"
  shows "snd (chat e seconds uuid4 req st) = (ErrorBody False ''No message provided'', 400)
       \<and> (\<exists>st'. fst (chat e seconds uuid4 req st) = Some st' \<and> checkpointer st' = checkpointer st)
       \<and> chat e seconds uuid4 req st = chat e' seconds' uuid4 req st"
proof -
  from assms have m: "message_strip req = Inr []"
    by (auto simp: message_strip_def strip_def)
  obtain tid st1 where g: "(case req_thread_id req of
        None \<Rightarrow> get_thread_id uuid4 st
      | Some t \<Rightarrow> (if t \<noteq> [] then (t, st) else get_thread_id uuid4 st)) = (tid, st1)"
    and cp1: "checkpointer st1 = checkpointer st"
    by (rule chat_thread_cases)
  have "chat e seconds uuid4 req st = (Some st1, (ErrorBody False ''No message provided'', 400))"
    for e seconds
    using m g by (simp add: chat_def)
  with cp1 show ?thesis by simp
qed

theorem chat_rejects_empty_message_witness:
  "chat loop_env 1 ''u1'' (Request None (Some ''t1'')) empty_state
     = (Some empty_state, (ErrorBody False ''No message provided'', 400))
   \<and> snd (chat loop_env 1 ''u1'' (Request (Some (JStr ''  '')) None) empty_state)
     = (ErrorBody False ''No message provided'', 400)"
proof -
  have a: "req_message (Request None (Some ''t1'')) = None
      \<or> (\<exists>s. req_message (Request None (Some ''t1'')) = Some (JStr s) \<and> strip s = [])"
    by simp
  have b: "req_message (Request (Some (JStr ''  '')) None) = None
      \<or> (\<exists>s. req_message (Request (Some (JStr ''  '')) None) = Some (JStr s) \<and> strip s = [])"
    by (simp add: strip_def isspace_def)
  have c: "fst (chat loop_env 1 ''u1'' (Request None (Some ''t1'')) empty_state) = Some empty_state"
    by (simp add: chat_def message_strip_def strip_def)
  from chat_rejects_empty_message[OF a, of loop_env 1 "''u1''" empty_state]
    chat_rejects_empty_message[OF b, of loop_env 1 "''u1''" empty_state] c
  show ?thesis by (simp add: prod_eq_iff)
qed

text \<open>
  C6. A step at \<open>chat_node\<close> gives the model the system prompt followed by all messages of
  the state; when the model answers, exactly that one response is appended, and the next node
  is \<open>tools\<close> if the response carries a tool call and \<open>END\<close> otherwise. The step at
  \<open>tools\<close> that follows a response with tool calls appends one message for each call and
  goes back to \<open>chat_node\<close>, and no step at \<open>tools\<close> goes anywhere else.
\<close>

theorem chat_step_routes:
  assumes "llm_with_tools e (SYSTEM_PROMPT (WORKING_DIRECTORY e) # state) = Inr (c, tcs)"
  shows "step e N_chat_node state =
           Inr (if tcs \<noteq> [] then N_tools else END, state @ [AIMessage c tcs])
       \<and> step e N_tools (state @ [AIMessage c tcs]) =
           Inr (N_chat_node, state @ [AIMessage c tcs] @ map (run_tool (mcp_tools e)) tcs)
       \<and> (\<forall>s n' s'. step e N_tools s = Inr (n', s') \<longrightarrow> n' = N_chat_node)"
  using assms
  by (auto simp: step_def chat_node_def add_messages_def route_after_chat_def tool_node_def
      split: sum.splits)

theorem chat_step_routes_witness:
  "step tool_once_env N_chat_node [HumanMessage ''hi''] =
     Inr (N_tools, [HumanMessage ''hi'', AIMessage [] [ToolCall ''ls'' ''{}'' ''c1'']])
   \<and> step tool_once_env N_tools [HumanMessage ''hi'', AIMessage [] [ToolCall ''ls'' ''{}'' ''c1'']] =
     Inr (N_chat_node, [HumanMessage ''hi'', AIMessage [] [ToolCall ''ls'' ''{}'' ''c1''],
                        ToolMessage ''a.txt'' ''c1''])
   \<and> step reply_env N_chat_node [HumanMessage ''hi''] =
     Inr (END, [HumanMessage ''hi'', AIMessage ''ok'' []])"
proof -
  have a: "llm_with_tools tool_once_env
             (SYSTEM_PROMPT (WORKING_DIRECTORY tool_once_env) # [HumanMessage ''hi''])
           = Inr ([], [ToolCall ''ls'' ''{}'' ''c1''])"
    by (simp add: tool_once_env_def)
  have b: "llm_with_tools reply_env
             (SYSTEM_PROMPT (WORKING_DIRECTORY reply_env) # [HumanMessage ''hi''])
           = Inr (''ok'', [])"
    by (simp add: reply_env_def)
  have t: "mcp_tools tool_once_env = [(''ls'', \<lambda>a. Inr ''a.txt'')]"
    by (simp add: tool_once_env_def)
  from chat_step_routes[OF a] chat_step_routes[OF b] show ?thesis
    by (simp add: run_tool_def t)
qed

text \<open>
  C7. The wait of \<open>run_async\<close> has the one timeout of 60 seconds. Work that takes longer,
  and work that never completes, makes the wait fail with \<open>TimeoutError\<close>; a chat request
  with a message and a history request then answer with a failure (status 500). Work that
  completes in less than 60 seconds has its outcome returned.
\<close>

theorem run_async_times_out:
  assumes "60 < seconds"
  shows "run_async_timeout = 60
       \<and> run_async seconds (coro :: (error + 'a) option) = Inl TimeoutError
       \<and> run_async early (None :: (error + 'a) option) = Inl TimeoutError
       \<and> (early < 60 \<longrightarrow> run_async early (Some outcome) = (outcome :: error + 'a))
       \<and> (\<forall>um. message_strip req = Inr um \<and> um \<noteq> [] \<longrightarrow>
            snd (chat e seconds uuid4 req st) = (ErrorBody False (str_error TimeoutError), 500))
       \<and> get_history seconds tid st = (st, (ErrorBody False (str_error TimeoutError), 500))"
proof -
  note r = run_async_late[OF assms]
  obtain t1 st1 where g: "(case req_thread_id req of
        None \<Rightarrow> get_thread_id uuid4 st
      | Some t \<Rightarrow> (if t \<noteq> [] then (t, st) else get_thread_id uuid4 st)) = (t1, st1)"
    by (rule chat_thread_cases)
  have "snd (chat e seconds uuid4 req st) = (ErrorBody False (str_error TimeoutError), 500)"
    if "message_strip req = Inr um" "um \<noteq> []" for um
    using that g by (simp add: chat_def Let_def r)
  moreover have "get_history seconds tid st = (st, (ErrorBody False (str_error TimeoutError), 500))"
    by (simp add: get_history_def r)
  moreover have "run_async early (None :: (error + 'a) option) = Inl TimeoutError"
    by (simp add: run_async_def)
  moreover have "early < 60 \<longrightarrow> run_async early (Some outcome) = outcome"
    by (simp add: run_async_def run_async_timeout_def)
  ultimately show ?thesis
    by (simp add: r run_async_timeout_def)
qed

theorem run_async_times_out_witness:
  "(60::nat) < 61
   \<and> run_async 61 (Some (Inr ''done'')) = Inl TimeoutError
   \<and> run_async 59 (Some (Inr ''done'')) = Inr ''done''
   \<and> snd (chat reply_env 61 ''u1'' (Request (Some (JStr ''hi'')) None) empty_state)
       = (ErrorBody False [], 500)"
proof -
  have h: "(60::nat) < 61" by simp
  have m: "message_strip (Request (Some (JStr ''hi'')) None) = Inr ''hi'' \<and> ''hi'' \<noteq> []"
    by (simp add: message_strip_def strip_def isspace_def)
  from run_async_times_out[where seconds = 61 and coro = "Some (Inr ''done'')" and early = 59
      and outcome = "Inr ''done''" and req = "Request (Some (JStr ''hi'')) None"
      and e = reply_env and ?uuid4.0 = "''u1''" and st = empty_state and tid = "''t1''", OF h] m
  show ?thesis by simp
qed




text \<open>
  C10. Every successful reply of a chat request carries \<open>discovered_username\<close> null: the
  engine's result has the key \<open>messages\<close> only, so the lookup finds nothing.
\<close>

theorem discovered_username_null:
  assumes "snd (chat e seconds uuid4 req st) = (b, code)" and "success b"
  shows "\<exists>r t. b = ChatBody True r t None \<and> code = 200"
proof (cases "message_strip req")
  case (Inl err)
  with assms show ?thesis by (auto simp: chat_def)
next
  case (Inr um)
  obtain tid st1 where g: "(case req_thread_id req of
        None \<Rightarrow> get_thread_id uuid4 st
      | Some t \<Rightarrow> (if t \<noteq> [] then (t, st) else get_thread_id uuid4 st)) = (tid, st1)"
    and cp1: "checkpointer st1 = checkpointer st"
    by (rule chat_thread_cases)
  show ?thesis
  proof (cases "run_async seconds
                  (map_option snd (ainvoke e (checkpointer st1) tid [HumanMessage um]))")
    case (Inl err)
    with assms Inr g show ?thesis by (auto simp: chat_def Let_def split: if_splits)
  next
    case res: (Inr result)
    then obtain cp' where "ainvoke e (checkpointer st1) tid [HumanMessage um] = Some (cp', Inr result)"
      by (auto simp: run_async_def split: option.splits if_splits)
    then obtain s where "result = [(''messages'', s)]"
      by (auto dest: ainvoke_result)
    with assms Inr g res show ?thesis
      by (auto simp: chat_def Let_def split: if_splits list.splits)
  qed
qed

theorem discovered_username_null_witness:
  "snd (chat tool_once_env 1 ''u1'' (Request (Some (JStr ''hi'')) (Some ''t1'')) empty_state)
     = (ChatBody True ''done'' ''t1'' None, 200)"
proof -
  have b: "snd (chat tool_once_env 1 ''u1'' (Request (Some (JStr ''hi'')) (Some ''t1'')) empty_state)
     = (ChatBody True ''done'' ''t1'' (discovered_username (fst (snd
          (chat tool_once_env 1 ''u1'' (Request (Some (JStr ''hi'')) (Some ''t1'')) empty_state)))), 200)"
    by (simp add: eval_defs tool_once_env_def empty_state_def SYSTEM_PROMPT_def)
  from discovered_username_null[OF b] b show ?thesis by auto
qed

end
